theory Spec2Isabelle
  imports Main
begin

section \<open>Strings as Python sees them\<close>

text \<open>
  Tool output is modelled as ASCII text: \<open>bytes.decode()\<close> is the identity, a character
  is one byte. The white space of \<open>str.strip()\<close> and of the regular expression class
  \<open>\s\<close>, and the line boundaries of \<open>str.splitlines()\<close>, are those of the ASCII range.
\<close>

definition LF :: char where
  "LF = CHR 0x0A"

definition CR :: char where
  "CR = CHR 0x0D"

definition TAB :: char where
  "TAB = CHR 0x09"

definition is_space :: "char \<Rightarrow> bool" where
  "is_space c = (c \<in> set [CHR '' '', CHR 0x09, CHR 0x0A, CHR 0x0B, CHR 0x0C, CHR 0x0D,
                           CHR 0x1C, CHR 0x1D, CHR 0x1E, CHR 0x1F])"

definition is_linebreak :: "char \<Rightarrow> bool" where
  "is_linebreak c = (c \<in> set [CHR 0x0A, CHR 0x0B, CHR 0x0C, CHR 0x0D, CHR 0x1C, CHR 0x1D, CHR 0x1E])"

definition strip :: "string \<Rightarrow> string" where
  "strip s = rev (dropWhile is_space (rev (dropWhile is_space s)))"

definition startswith :: "string \<Rightarrow> string \<Rightarrow> bool" where
  "startswith s p = (take (length p) s = p)"

definition endswith :: "string \<Rightarrow> string \<Rightarrow> bool" where
  "endswith s p = (length p \<le> length s \<and> drop (length s - length p) s = p)"

text \<open>\<open>sub in s\<close>: \<open>sub\<close> occurs in \<open>s\<close> as a contiguous run.\<close>

fun contains :: "string \<Rightarrow> string \<Rightarrow> bool" where
  "contains [] sub = (sub = [])"
| "contains (c # cs) sub = (startswith (c # cs) sub \<or> contains cs sub)"

text \<open>
  \<open>str.splitlines()\<close>: a line ends at a line boundary, \<open>\r\n\<close> counts as one boundary,
  and there is no empty last line after a final boundary. \<open>cur\<close> holds the characters of
  the line being read, last one first.
\<close>

fun splitlines_from :: "string \<Rightarrow> string \<Rightarrow> string list" where
  "splitlines_from cur [] = (if cur = [] then [] else [rev cur])"
| "splitlines_from cur [c] =
     (if is_linebreak c then [rev cur] else [rev (c # cur)])"
| "splitlines_from cur (c # d # cs) =
     (if c = CR \<and> d = LF then rev cur # splitlines_from [] cs
      else if is_linebreak c then rev cur # splitlines_from [] (d # cs)
      else splitlines_from (c # cur) (d # cs))"

definition splitlines :: "string \<Rightarrow> string list" where
  "splitlines s = splitlines_from [] s"

subsection \<open>os.path (posixpath)\<close>

definition slash :: char where
  "slash = CHR ''/''"

text \<open>\<open>p[p.rfind('/') + 1:]\<close> and \<open>p[:p.rfind('/') + 1]\<close>.\<close>

definition basename :: "string \<Rightarrow> string" where
  "basename p = rev (takeWhile (\<lambda>c. c \<noteq> slash) (rev p))"

definition head_of :: "string \<Rightarrow> string" where
  "head_of p = rev (dropWhile (\<lambda>c. c \<noteq> slash) (rev p))"

definition rstrip_slash :: "string \<Rightarrow> string" where
  "rstrip_slash p = rev (dropWhile (\<lambda>c. c = slash) (rev p))"

definition dirname :: "string \<Rightarrow> string" where
  "dirname p =
     (let h = head_of p
      in if h \<noteq> [] \<and> h \<noteq> replicate (length h) slash then rstrip_slash h else h)"

definition split_path :: "string \<Rightarrow> string \<times> string" where
  "split_path p = (dirname p, basename p)"

definition join :: "string \<Rightarrow> string \<Rightarrow> string" where
  "join a b =
     (if startswith b [slash] then b
      else if a = [] \<or> endswith a [slash] then a @ b
      else a @ [slash] @ b)"

section \<open>Regular expressions of the two line formats\<close>

text \<open>
  The two patterns of the source use literals, greedy repetitions of a character class,
  one capturing group and \<open>$\<close>. \<open>re.match\<close> anchors at the start and backtracks: a greedy
  repetition first takes as many characters as it can and gives them back one at a time
  while the rest of the pattern fails.
\<close>

datatype item =
    Lit string
  | Rep nat "char \<Rightarrow> bool"
  | Grp nat "char \<Rightarrow> bool"
  | Dollar

text \<open>\<open>first_down f lo n\<close> tries \<open>f n\<close>, \<open>f (n - 1)\<close>, ... down to \<open>f lo\<close>.\<close>

fun first_down :: "(nat \<Rightarrow> 'a option) \<Rightarrow> nat \<Rightarrow> nat \<Rightarrow> 'a option" where
  "first_down f lo 0 = (if lo = 0 then f 0 else None)"
| "first_down f lo (Suc n) =
     (if Suc n < lo then None
      else (case f (Suc n) of Some r \<Rightarrow> Some r | None \<Rightarrow> first_down f lo n))"

text \<open>The result is the text of group 1 of the first match in backtracking order.\<close>

fun re_from :: "item list \<Rightarrow> string \<Rightarrow> string \<Rightarrow> string option" where
  "re_from [] s g = Some g"
| "re_from (Lit l # r) s g =
     (if startswith s l then re_from r (drop (length l) s) g else None)"
| "re_from (Rep lo p # r) s g =
     first_down (\<lambda>n. re_from r (drop n s) g) lo (length (takeWhile p s))"
| "re_from (Grp lo p # r) s g =
     first_down (\<lambda>n. re_from r (drop n s) (take n s)) lo (length (takeWhile p s))"
| "re_from (Dollar # r) s g =
     (if s = [] \<or> s = [LF] then re_from r s g else None)"

definition re_match :: "item list \<Rightarrow> string \<Rightarrow> string option" where
  "re_match pat s = re_from pat s []"

text \<open>\<open>LDD_LINE = re.compile(r'^[^ ]+ => ([^ ]+) \([^(]+\)$')\<close>\<close>

definition LDD_LINE :: "item list" where
  "LDD_LINE =
     [Rep 1 (\<lambda>c. c \<noteq> CHR '' ''), Lit '' => '', Grp 1 (\<lambda>c. c \<noteq> CHR '' ''), Lit '' ('',
      Rep 1 (\<lambda>c. c \<noteq> CHR ''(''), Lit '')'', Dollar]"

text \<open>\<open>OTOOL_L_LINE = re.compile(r'\s+(.+) \(compatibility .*, current .*\)$')\<close>\<close>

definition OTOOL_L_LINE :: "item list" where
  "OTOOL_L_LINE =
     [Rep 1 is_space, Grp 1 (\<lambda>c. c \<noteq> LF), Lit '' (compatibility '', Rep 0 (\<lambda>c. c \<noteq> LF),
      Lit '', current '', Rep 0 (\<lambda>c. c \<noteq> LF), Lit '')'', Dollar]"

section \<open>The machine: files, external tools, side effects\<close>

text \<open>
  The program reaches the machine only through external tools and a few library calls, so
  the machine is a parameter of the model. A path is a string and names one node; two
  spellings of a path are two paths (no symbolic links, no \<open>.\<close> or \<open>..\<close>). The
  content of a file is opaque (\<open>'c\<close>): only the tools read or rewrite it.
\<close>

datatype 'c node = File 'c | Dir

type_synonym 'c files = "string \<Rightarrow> 'c node option"

datatype error =
    AssertionError string
  | IndexError
  | CalledProcessError "string list"
  | FileNotFoundError string
  | IsADirectoryError string
  | SameFileError string

text \<open>
  What the program does to the machine, in order: a command run by
  \<open>subprocess.check_call\<close>, a file copied by \<open>shutil.copy\<close> (source, written file), and
  a mark for each call of the platform's relinker by the closure walk (the binary).
\<close>

datatype event =
    Call "string list"
  | Copy string string
  | Relink string

record 'c world =
  fs :: "'c files"
  trace :: "event list"
  libc6_cache :: "string set option"

text \<open>
  The tools: \<open>stdout_of\<close> is what a command run by \<open>subprocess.check_output\<close> prints
  (or the exception of a failed run), \<open>effect_of\<close> is what a command run by
  \<open>subprocess.check_call\<close> does to the files (or the exception of a non-zero exit
  status), \<open>relpath\<close> is \<open>os.path.relpath\<close>, which depends on the current directory.
\<close>

record 'c tools =
  stdout_of :: "string list \<Rightarrow> 'c files \<Rightarrow> error + string"
  effect_of :: "string list \<Rightarrow> 'c files \<Rightarrow> error + 'c files"
  relpath :: "string \<Rightarrow> string \<Rightarrow> string"

definition exists_path :: "'c files \<Rightarrow> string \<Rightarrow> bool" where
  "exists_path f p = (f p \<noteq> None)"

definition isfile :: "'c files \<Rightarrow> string \<Rightarrow> bool" where
  "isfile f p = (case f p of Some (File c) \<Rightarrow> True | _ \<Rightarrow> False)"


definition check_output :: "'c tools \<Rightarrow> string list \<Rightarrow> 'c world \<Rightarrow> error + string" where
  "check_output t cmd s = stdout_of t cmd (fs s)"

definition check_call :: "'c tools \<Rightarrow> string list \<Rightarrow> 'c world \<Rightarrow> error + 'c world" where
  "check_call t cmd s =
     (case effect_of t cmd (fs s) of
        Inl e \<Rightarrow> Inl e
      | Inr f \<Rightarrow> Inr (s\<lparr>fs := f, trace := trace s @ [Call cmd]\<rparr>))"

section \<open>Link Inspector, Linux\<close>

text \<open>
  \<open>_libc6_links\<close> is wrapped in \<open>functools.lru_cache(maxsize=1)\<close>: the first call that
  returns stores its result, later calls return the stored set.
\<close>

definition libc6_lines :: "string \<Rightarrow> string set" where
  "libc6_lines out =
     set (filter (\<lambda>line. startswith line ''/lib/'' \<and> contains line ''.so'') (splitlines out))"

definition libc6_links :: "'c tools \<Rightarrow> 'c world \<Rightarrow> error + (string set \<times> 'c world)" where
  "libc6_links t s =
     (case libc6_cache s of
        Some r \<Rightarrow> Inr (r, s)
      | None \<Rightarrow>
          (case check_output t [''dpkg'', ''-L'', ''libc6''] s of
             Inl e \<Rightarrow> Inl e
           | Inr out \<Rightarrow> Inr (libc6_lines out, s\<lparr>libc6_cache := Some (libc6_lines out)\<rparr>)))"

definition loader_or_vdso :: "string \<Rightarrow> bool" where
  "loader_or_vdso line =
     (startswith line ''linux-vdso.so.1 '' \<or> startswith line ''/lib/ld-linux-''
      \<or> startswith line ''/lib64/ld-linux-'')"

text \<open>The loop of \<open>_linux_linked\<close> over the lines of the \<open>ldd\<close> output.\<close>

fun ldd_lines :: "string set \<Rightarrow> string list \<Rightarrow> string list \<Rightarrow> error + string list" where
  "ldd_lines ignored [] ret = Inr ret"
| "ldd_lines ignored (l # ls) ret =
     (let line = strip l
      in case re_match LDD_LINE line of
           None \<Rightarrow>
             if line = ''statically linked'' then ldd_lines ignored ls ret
             else if loader_or_vdso line then ldd_lines ignored ls ret
             else Inl (AssertionError (''unexpected ldd line:'' @ [LF, LF] @ line))
         | Some m \<Rightarrow>
             if m \<notin> ignored then ldd_lines ignored ls (ret @ [m])
             else ldd_lines ignored ls ret)"

definition linux_linked ::
  "'c tools \<Rightarrow> string \<Rightarrow> 'c world \<Rightarrow> error + (string list \<times> 'c world)" where
  "linux_linked t filename s =
     (case libc6_links t s of
        Inl e \<Rightarrow> Inl e
      | Inr (ignored, s1) \<Rightarrow>
          (case check_output t [''ldd'', filename] s1 of
             Inl e \<Rightarrow> Inl e
           | Inr out \<Rightarrow>
               (case ldd_lines ignored (splitlines out) [] of
                  Inl e \<Rightarrow> Inl e
                | Inr ret \<Rightarrow> Inr (ret, s1))))"

section \<open>Link Inspector, Darwin\<close>

text \<open>The loop of \<open>_darwin_linked\<close> over the lines after the first.\<close>

fun otool_lines :: "'c files \<Rightarrow> string \<Rightarrow> string list \<Rightarrow> string list \<Rightarrow> error + string list" where
  "otool_lines f filename [] ret = Inr ret"
| "otool_lines f filename (line # ls) ret =
     (case re_match OTOOL_L_LINE line of
        None \<Rightarrow> Inl (AssertionError (''unexpected otool output:'' @ [LF, LF] @ line))
      | Some m \<Rightarrow>
          if m = filename then otool_lines f filename ls ret
          else if isfile f m then otool_lines f filename ls (ret @ [m])
          else otool_lines f filename ls ret)"

text \<open>\<open>lines[0]\<close> raises \<open>IndexError\<close> when the tool printed nothing.\<close>

definition darwin_linked ::
  "'c tools \<Rightarrow> string \<Rightarrow> 'c world \<Rightarrow> error + (string list \<times> 'c world)" where
  "darwin_linked t filename s =
     (case check_output t [''otool'', ''-L'', filename] s of
        Inl e \<Rightarrow> Inl e
      | Inr out \<Rightarrow>
          (case splitlines out of
             [] \<Rightarrow> Inl IndexError
           | l0 # ls \<Rightarrow>
               if l0 \<noteq> filename @ '':''
               then Inl (AssertionError (''unexpected otool output:'' @ [LF, LF] @ out))
               else (case otool_lines (fs s) filename ls [] of
                       Inl e \<Rightarrow> Inl e
                     | Inr ret \<Rightarrow> Inr (ret, s))))"

section \<open>Relinker\<close>

text \<open>\<open>_linux_relink\<close>: one \<open>patchelf\<close> run; \<open>set_name\<close> is not used.\<close>

definition linux_relink ::
  "'c tools \<Rightarrow> string \<Rightarrow> string \<Rightarrow> bool \<Rightarrow> 'c world \<Rightarrow> error + 'c world" where
  "linux_relink t filename libdir set_name s =
     (let origin = ''$ORIGIN/'' @ relpath t libdir (dirname filename)
      in check_call t [''patchelf'', ''--force-rpath'', ''--set-rpath'', origin, filename] s)"

text \<open>The loop of \<open>_darwin_relink\<close> over the references of the binary.\<close>

fun change_links ::
  "'c tools \<Rightarrow> string \<Rightarrow> string \<Rightarrow> string \<Rightarrow> string list \<Rightarrow> 'c world \<Rightarrow> error + 'c world" where
  "change_links t filename libdir dir [] s = Inr s"
| "change_links t filename libdir dir (link # ls) s =
     (let soname = basename link;
          libdir_so = join libdir soname;
          new = ''@loader_path/'' @ relpath t libdir_so dir
      in case check_call t [''install_name_tool'', ''-change'', link, new, filename] s of
           Inl e \<Rightarrow> Inl e
         | Inr s' \<Rightarrow> change_links t filename libdir dir ls s')"

definition darwin_relink ::
  "'c tools \<Rightarrow> string \<Rightarrow> string \<Rightarrow> bool \<Rightarrow> 'c world \<Rightarrow> error + 'c world" where
  "darwin_relink t filename libdir set_name s =
     (case split_path filename of
        (dir, base) \<Rightarrow>
          (case (if set_name
                 then check_call t [''install_name_tool'', ''-id'', ''@loader_path/'' @ base, filename] s
                 else Inr s) of
             Inl e \<Rightarrow> Inl e
           | Inr s1 \<Rightarrow>
               (case darwin_linked t filename s1 of
                  Inl e \<Rightarrow> Inl e
                | Inr (links, s2) \<Rightarrow>
                    (case change_links t filename libdir dir links s2 of
                       Inl e \<Rightarrow> Inl e
                     | Inr s3 \<Rightarrow>
                         check_call t [''codesign'', ''--force'', ''--sign'', ''-'', filename] s3))))"

text \<open>The \<open>Platform\<close> tuple, with the two fields the closure walk uses.\<close>

record 'c platform =
  linked :: "string \<Rightarrow> 'c world \<Rightarrow> error + (string list \<times> 'c world)"
  relink :: "string \<Rightarrow> string \<Rightarrow> bool \<Rightarrow> 'c world \<Rightarrow> error + 'c world"


definition darwin_plat :: "'c tools \<Rightarrow> 'c platform" where
  "darwin_plat t = \<lparr>linked = darwin_linked t, relink = darwin_relink t\<rparr>"

section \<open>Closure walk\<close>






section \<open>Notions used in the statements\<close>

subsection \<open>Parsing\<close>

text \<open>The targets of the arrow-form lines of an \<open>ldd\<close> output, in order.\<close>

definition arrow_targets :: "string list \<Rightarrow> string list" where
  "arrow_targets ls =
     concat (map (\<lambda>l. case re_match LDD_LINE (strip l) of Some m \<Rightarrow> [m] | None \<Rightarrow> []) ls)"


subsection \<open>Exceptions inside a walk\<close>


subsection \<open>What is assumed of the tools\<close>

definition same_kind :: "'c node option \<Rightarrow> 'c node option \<Rightarrow> bool" where
  "same_kind a b = ((a = None) = (b = None) \<and> (a = Some Dir) = (b = Some Dir))"

text \<open>
  The rewrite tools (\<open>patchelf\<close>, \<open>install_name_tool\<close>, \<open>codesign\<close>) patch the file
  they are given, the last word of the command, in place: no other path changes, nothing is
  created or removed.
\<close>

definition in_place :: "'c tools \<Rightarrow> bool" where
  "in_place t =
     (\<forall>cmd f f'. effect_of t cmd f = Inr f' \<longrightarrow>
        (\<forall>p. p \<noteq> last cmd \<longrightarrow> f' p = f p) \<and> same_kind (f' (last cmd)) (f (last cmd)))"

text \<open>
  The same for a platform: inspecting changes no file and runs no rewrite; relinking
  rewrites the binary in place and adds tool runs only.
\<close>

definition well_behaved :: "'c platform \<Rightarrow> bool" where
  "well_behaved plat =
     ((\<forall>filename s lk s'. linked plat filename s = Inr (lk, s') \<longrightarrow>
          fs s' = fs s \<and> trace s' = trace s)
      \<and> (\<forall>filename libdir set_name s s'. relink plat filename libdir set_name s = Inr s' \<longrightarrow>
          (\<forall>p. p \<noteq> filename \<longrightarrow> fs s' p = fs s p)
          \<and> same_kind (fs s' filename) (fs s filename)
          \<and> (\<exists>cmds. trace s' = trace s @ map Call cmds)))"

text \<open>The inspector's answer for a file is read off the file's content.\<close>

definition reads_content :: "'c platform \<Rightarrow> ('c \<Rightarrow> string list) \<Rightarrow> bool" where
  "reads_content plat refs =
     (\<forall>filename s lk s'. linked plat filename s = Inr (lk, s') \<longrightarrow>
        (\<exists>c. fs s filename = Some (File c) \<and> lk = refs c))"

subsection \<open>Directories and dependency graphs\<close>

text \<open>The names of the entries of directory \<open>d\<close>.\<close>

definition dir_entries :: "'c files \<Rightarrow> string \<Rightarrow> string set" where
  "dir_entries f d = {n. n \<noteq> [] \<and> slash \<notin> set n \<and> exists_path f (join d n)}"

text \<open>
  The base names of the files on the machine with no entry of that name in \<open>libdir\<close>: what
  a walk could still copy.
\<close>

definition pending :: "'c files \<Rightarrow> string \<Rightarrow> string set" where
  "pending f libdir =
     {n. (\<exists>p. isfile f p \<and> basename p = n) \<and> \<not> exists_path f (join libdir n)}"

text \<open>
  The dependency graph of the files \<open>f\<close>: an edge from a binary to each library its content
  references; \<open>closure_of\<close> is the direct and transitive dependencies of a binary.
\<close>

definition refs_at :: "('c \<Rightarrow> string list) \<Rightarrow> 'c files \<Rightarrow> string \<Rightarrow> string list" where
  "refs_at refs f p = (case f p of Some (File c) \<Rightarrow> refs c | _ \<Rightarrow> [])"

definition depends :: "('c \<Rightarrow> string list) \<Rightarrow> 'c files \<Rightarrow> (string \<times> string) set" where
  "depends refs f = {(p, q). q \<in> set (refs_at refs f p)}"

definition closure_of :: "('c \<Rightarrow> string list) \<Rightarrow> 'c files \<Rightarrow> string \<Rightarrow> string set" where
  "closure_of refs f root = (depends refs f)\<^sup>+ `` {root}"

subsection \<open>Traces\<close>

definition copied :: "event list \<Rightarrow> string list" where
  "copied evs = concat (map (\<lambda>e. case e of Copy src dst \<Rightarrow> [dst] | _ \<Rightarrow> []) evs)"

definition relinked :: "event list \<Rightarrow> string list" where
  "relinked evs = concat (map (\<lambda>e. case e of Relink p \<Rightarrow> [p] | _ \<Rightarrow> []) evs)"

definition calls :: "event list \<Rightarrow> string list list" where
  "calls evs = concat (map (\<lambda>e. case e of Call cmd \<Rightarrow> [cmd] | _ \<Rightarrow> []) evs)"

text \<open>
  The events of a depth-first walk of a binary: the binary is relinked, its new
  references are copied, then come, one copied library after the other, the events of the
  whole walk of that library.
\<close>

inductive walk_events :: "string \<Rightarrow> event list \<Rightarrow> bool" where
  "list_all2 walk_events (map snd news) subs \<Longrightarrow>
   walk_events filename
     (Relink filename # map Call cmds @ map (\<lambda>(src, dst). Copy src dst) news @ concat subs)"

section \<open>Example machines\<close>

text \<open>\<open>os.path.relpath\<close> between absolute paths without \<open>.\<close>, \<open>..\<close> or repeated slashes.\<close>

fun split_slash :: "string \<Rightarrow> string \<Rightarrow> string list" where
  "split_slash cur [] = [rev cur]"
| "split_slash cur (c # cs) =
     (if c = slash then rev cur # split_slash [] cs else split_slash (c # cur) cs)"

definition components :: "string \<Rightarrow> string list" where
  "components p = filter (\<lambda>x. x \<noteq> []) (split_slash [] p)"

fun common_prefix :: "string list \<Rightarrow> string list \<Rightarrow> nat" where
  "common_prefix (x # xs) (y # ys) = (if x = y then Suc (common_prefix xs ys) else 0)"
| "common_prefix xs ys = 0"

fun join_all :: "string list \<Rightarrow> string" where
  "join_all [] = []"
| "join_all [x] = x"
| "join_all (x # y # r) = x @ [slash] @ join_all (y # r)"

definition posix_relpath :: "string \<Rightarrow> string \<Rightarrow> string" where
  "posix_relpath path start =
     (let start_list = components start;
          path_list = components path;
          i = common_prefix start_list path_list;
          rel_list = replicate (length start_list - i) ''..'' @ drop i path_list
      in if rel_list = [] then ''.'' else join_all rel_list)"

text \<open>
  A Linux machine on which the content of a binary is the list of the paths \<open>ldd\<close>
  resolves its libraries to, \<open>libc6\<close> owns \<open>/lib/libc.so.6\<close>, and \<open>patchelf\<close> succeeds
  on every file.
\<close>

definition ldd_text :: "string list \<Rightarrow> string" where
  "ldd_text refs =
     (if refs = [] then [TAB] @ ''statically linked'' @ [LF]
      else [TAB] @ ''linux-vdso.so.1 (0x1)'' @ [LF]
           @ concat (map (\<lambda>r. [TAB] @ basename r @ '' => '' @ r @ '' (0x1)'' @ [LF]) refs))"

definition ldd_tools :: "string list tools" where
  "ldd_tools = \<lparr>
     stdout_of = (\<lambda>cmd f.
        if cmd = [''dpkg'', ''-L'', ''libc6''] then Inr (''/lib/libc.so.6'' @ [LF])
        else if length cmd = 2 \<and> hd cmd = ''ldd''
        then (case f (last cmd) of
                Some (File refs) \<Rightarrow> Inr (ldd_text refs)
              | _ \<Rightarrow> Inl (CalledProcessError cmd))
        else Inl (CalledProcessError cmd)),
     effect_of = (\<lambda>cmd f.
        if isfile f (last cmd) then Inr f else Inl (CalledProcessError cmd)),
     relpath = posix_relpath \<rparr>"

text \<open>
  A Darwin machine on which the content of a binary is the list of the install names
  \<open>otool -L\<close> prints for it, and \<open>install_name_tool -change old new\<close> replaces \<open>old\<close> by
  \<open>new\<close> in that list.
\<close>

definition otool_text :: "string \<Rightarrow> string list \<Rightarrow> string" where
  "otool_text filename refs =
     filename @ '':'' @ [LF]
     @ concat (map (\<lambda>r. [TAB] @ r @ '' (compatibility version 1.0.0, current version 1.0.0)''
                         @ [LF]) refs)"

definition otool_tools :: "string list tools" where
  "otool_tools = \<lparr>
     stdout_of = (\<lambda>cmd f.
        if length cmd = 3 \<and> take 2 cmd = [''otool'', ''-L'']
        then (case f (last cmd) of
                Some (File refs) \<Rightarrow> Inr (otool_text (last cmd) refs)
              | _ \<Rightarrow> Inl (CalledProcessError cmd))
        else Inl (CalledProcessError cmd)),
     effect_of = (\<lambda>cmd f.
        case f (last cmd) of
          Some (File refs) \<Rightarrow>
            if length cmd = 5 \<and> take 2 cmd = [''install_name_tool'', ''-change'']
            then Inr (f(last cmd \<mapsto> File (map (\<lambda>r. if r = cmd ! 2 then cmd ! 3 else r) refs)))
            else Inr f
        | _ \<Rightarrow> Inl (CalledProcessError cmd)),
     relpath = posix_relpath \<rparr>"

text \<open>A platform whose binaries hold their reference list in the clear.\<close>

definition table_plat :: "string list platform" where
  "table_plat = \<lparr>
     linked = (\<lambda>filename s.
        case fs s filename of
          Some (File refs) \<Rightarrow> Inr (refs, s)
        | _ \<Rightarrow> Inl (CalledProcessError [''inspect'', filename])),
     relink = (\<lambda>filename libdir set_name s.
        if isfile (fs s) filename then Inr s
        else Inl (CalledProcessError [''rewrite'', filename])) \<rparr>"

text \<open>A machine that prints a fixed text for every inspection.\<close>

definition printing :: "string \<Rightarrow> string \<Rightarrow> unit tools" where
  "printing dpkg_out out = \<lparr>
     stdout_of = (\<lambda>cmd f. if cmd = [''dpkg'', ''-L'', ''libc6''] then Inr dpkg_out else Inr out),
     effect_of = (\<lambda>cmd f. Inr f),
     relpath = posix_relpath \<rparr>"

definition start :: "'c files \<Rightarrow> 'c world" where
  "start f = \<lparr>fs = f, trace = [], libc6_cache = None\<rparr>"

text \<open>The scenario of the specification: \<open>main\<close> links only \<open>libmylib\<close>.\<close>

definition one_lib :: "string list files" where
  "one_lib = [''/prefix/lib'' \<mapsto> Dir,
              ''/prefix/main'' \<mapsto> File [''/homebrew/lib/libmylib.so''],
              ''/homebrew/lib/libmylib.so'' \<mapsto> File []]"

text \<open>\<open>app\<close> links \<open>liba\<close> and \<open>libb\<close>; \<open>liba\<close> links \<open>libb\<close> and \<open>libc\<close>.\<close>

definition diamond :: "string list files" where
  "diamond = [''/p/lib'' \<mapsto> Dir,
              ''/p/bin/app'' \<mapsto> File [''/usr/lib/liba.so'', ''/usr/lib/libb.so''],
              ''/usr/lib/liba.so'' \<mapsto> File [''/usr/lib/libb.so'', ''/usr/lib/libc.so''],
              ''/usr/lib/libb.so'' \<mapsto> File [],
              ''/usr/lib/libc.so'' \<mapsto> File []]"

text \<open>Two libraries that reference each other.\<close>

definition cycle :: "string list files" where
  "cycle = [''/p/lib'' \<mapsto> Dir,
            ''/p/bin/app'' \<mapsto> File [''/usr/lib/liba.so''],
            ''/usr/lib/liba.so'' \<mapsto> File [''/usr/lib/libb.so''],
            ''/usr/lib/libb.so'' \<mapsto> File [''/usr/lib/liba.so'']]"

text \<open>Two libraries of the same base name with different references.\<close>

definition collision :: "string list files" where
  "collision = [''/p/lib'' \<mapsto> Dir,
                ''/p/bin/app'' \<mapsto> File [''/a/libx.so'', ''/b/libx.so''],
                ''/a/libx.so'' \<mapsto> File [''/s/liby.so''],
                ''/b/libx.so'' \<mapsto> File [''/s/libz.so''],
                ''/s/liby.so'' \<mapsto> File [],
                ''/s/libz.so'' \<mapsto> File []]"

text \<open>The outputs of the unit test of the Linux inspector.\<close>

definition unit_test_dpkg :: string where
  "unit_test_dpkg =
     ''/lib/aarch64-linux-gnu/libm.so.6'' @ [LF] @ ''/lib/aarch64-linux-gnu/libc.so.6'' @ [LF]
     @ ''/lib/ld-linux-aarch64.so.1'' @ [LF] @ ''/usr/share/doc/libc6/NEWS.gz'' @ [LF]"

definition unit_test_ldd :: string where
  "unit_test_ldd =
     [TAB] @ ''linux-vdso.so.1 (0x0000ffff9f326000)'' @ [LF]
     @ [TAB] @ ''libm.so.6 => /lib/aarch64-linux-gnu/libm.so.6 (0x0000ffff9ec70000)'' @ [LF]
     @ [TAB] @ ''libexpat.so.1 => /lib/aarch64-linux-gnu/libexpat.so.1 (0x0000ffff9ec30000)'' @ [LF]
     @ [TAB] @ ''libz.so.1 => /lib/aarch64-linux-gnu/libz.so.1 (0x0000ffff9ec00000)'' @ [LF]
     @ [TAB] @ ''libc.so.6 => /lib/aarch64-linux-gnu/libc.so.6 (0x0000ffff9ea50000)'' @ [LF]
     @ [TAB] @ ''/lib/ld-linux-aarch64.so.1 (0x0000ffff9f2ed000)'' @ [LF]
     @ [TAB] @ ''/lib64/ld-linux-aarch64.so.1 (0x0000ffff9f2ed000)'' @ [LF]"

definition unit_test_ret :: "string list" where
  "unit_test_ret = [''/lib/aarch64-linux-gnu/libexpat.so.1'', ''/lib/aarch64-linux-gnu/libz.so.1'']"

definition vdso_line :: string where
  "vdso_line = [TAB] @ ''linux-vdso.so.1 (0x0000ffff9f326000)''"

text \<open>
  A loader line in arrow form, as newer versions of \<open>ldd\<close> print it, on a machine whose
  \<open>libc6\<close> owns the loader under \<open>/lib/x86_64-linux-gnu\<close> and \<open>/lib64\<close>.
\<close>

definition x86_64_dpkg :: string where
  "x86_64_dpkg =
     ''/lib/x86_64-linux-gnu/libc.so.6'' @ [LF] @ ''/lib/x86_64-linux-gnu/ld-linux-x86-64.so.2'' @ [LF]
     @ ''/lib64/ld-linux-x86-64.so.2'' @ [LF]"

definition loader_arrow_line :: string where
  "loader_arrow_line =
     [TAB] @ ''/lib64/ld-linux-x86-64.so.2 => /usr/lib64/ld-linux-x86-64.so.2 (0x00007f3b5c9d2000)''"

definition loader_arrow_ldd :: string where
  "loader_arrow_ldd =
     [TAB] @ ''linux-vdso.so.1 (0x00007ffd0a5f3000)'' @ [LF]
     @ [TAB] @ ''libc.so.6 => /lib/x86_64-linux-gnu/libc.so.6 (0x00007f3b5c7a1000)'' @ [LF]
     @ loader_arrow_line @ [LF]"

text \<open>What \<open>ldd\<close> prints for a library it cannot resolve.\<close>

definition not_found_ldd :: string where
  "not_found_ldd = [TAB] @ ''libfoo.so => not found'' @ [LF]"




text \<open>The unit test of the Darwin inspector where \<open>libssl\<close> is listed as linking itself.\<close>

definition self_linked :: "string list files" where
  "self_linked = [''/ssl/lib'' \<mapsto> Dir,
                  ''/ssl/lib/libssl.dylib'' \<mapsto>
                     File [''/ssl/lib/libssl.dylib'', ''/ssl/lib/libcrypto.dylib'',
                           ''/usr/lib/libSystem.B.dylib''],
                  ''/ssl/lib/libcrypto.dylib'' \<mapsto> File []]"

text \<open>A line of \<open>otool -L\<close> for a library of the system that is not a file on disk.\<close>

definition system_line :: string where
  "system_line =
     [TAB] @ ''/usr/lib/libSystem.B.dylib (compatibility version 1.0.0, current version 1.0.0)''"

section \<open>The inspectors\<close>

lemma ldd_lines_result:
  "ldd_lines ignored ls ret = Inr r \<Longrightarrow>
   r = ret @ filter (\<lambda>m. m \<notin> ignored) (arrow_targets ls)"
proof (induction ls arbitrary: ret)
  case Nil
  then show ?case by (simp add: arrow_targets_def)
next
  case (Cons l ls)
  show ?case
  proof (cases "re_match LDD_LINE (strip l)")
    case None
    with Cons.prems have "ldd_lines ignored ls ret = Inr r"
      by (simp add: Let_def split: if_splits)
    from Cons.IH [OF this] None show ?thesis
      by (simp add: arrow_targets_def)
  next
    case (Some m)
    show ?thesis
    proof (cases "m \<in> ignored")
      case True
      with Cons.prems Some have "ldd_lines ignored ls ret = Inr r"
        by (simp add: Let_def)
      from Cons.IH [OF this] Some True show ?thesis
        by (simp add: arrow_targets_def)
    next
      case False
      with Cons.prems Some have "ldd_lines ignored ls (ret @ [m]) = Inr r"
        by (simp add: Let_def)
      from Cons.IH [OF this] Some False show ?thesis
        by (simp add: arrow_targets_def)
    qed
  qed
qed



lemma otool_lines_result:
  "otool_lines f filename ls ret = Inr r \<Longrightarrow>
   set r \<subseteq> set ret \<union> {m. isfile f m \<and> m \<noteq> filename}"
proof (induction ls arbitrary: ret)
  case Nil
  then show ?case by auto
next
  case (Cons l ls)
  then show ?case
    by (fastforce split: option.splits if_splits)
qed

lemma libc6_links_fresh:
  "libc6_links t s = Inr (ignored, s') \<Longrightarrow> libc6_cache s = None \<Longrightarrow>
   \<exists>dpkg_out. check_output t [''dpkg'', ''-L'', ''libc6''] s = Inr dpkg_out
      \<and> ignored = libc6_lines dpkg_out"
  by (auto simp: libc6_links_def split: sum.splits)

lemma Inr_fstE: "map_sum id fst x = Inr a \<Longrightarrow> \<exists>b. x = Inr (a, b)"
  by (cases x) auto

text \<open>
  C5, as amended. What \<open>_linux_linked\<close> returns is the targets of the arrow-form lines of
  the \<open>ldd\<close> output that are not in the exclusion set of \<open>_libc6_links\<close>, in order: no
  member of that set is returned. On the first call the set is the lines of
  \<open>dpkg -L libc6\<close> that start with \<open>/lib/\<close> and contain \<open>.so\<close>. A line of the dynamic
  loader or of the vdso that is not in arrow form (it starts with one of the three
  prefixes) adds nothing.
\<close>

theorem linux_linked_excludes_base_system:
  "(linux_linked t filename s = Inr (ret, s') \<longrightarrow>
      (\<exists>ignored out.
          libc6_links t s = Inr (ignored, s')
          \<and> check_output t [''ldd'', filename] s' = Inr out
          \<and> ret = filter (\<lambda>m. m \<notin> ignored) (arrow_targets (splitlines out))
          \<and> set ret \<inter> ignored = {}
          \<and> (libc6_cache s = None \<longrightarrow>
               (\<exists>dpkg_out. check_output t [''dpkg'', ''-L'', ''libc6''] s = Inr dpkg_out
                  \<and> ignored = libc6_lines dpkg_out))))
   \<and> (re_match LDD_LINE (strip l) = None \<and> loader_or_vdso (strip l) \<longrightarrow>
        ldd_lines ignored' (l # ls) acc = ldd_lines ignored' ls acc)"
proof (intro conjI impI)
  assume run: "linux_linked t filename s = Inr (ret, s')"
  then obtain ignored out where
    ig: "libc6_links t s = Inr (ignored, s')" and
    out: "check_output t [''ldd'', filename] s' = Inr out" and
    loop: "ldd_lines ignored (splitlines out) [] = Inr ret"
    by (auto simp: linux_linked_def split: sum.splits)
  from ldd_lines_result [OF loop]
  have ret: "ret = filter (\<lambda>m. m \<notin> ignored) (arrow_targets (splitlines out))"
    by simp
  then have disj: "set ret \<inter> ignored = {}"
    by auto
  have cache: "libc6_cache s = None \<longrightarrow>
               (\<exists>dpkg_out. check_output t [''dpkg'', ''-L'', ''libc6''] s = Inr dpkg_out
                  \<and> ignored = libc6_lines dpkg_out)"
    using libc6_links_fresh [OF ig] by (rule impI)
  show "\<exists>ignored out.
          libc6_links t s = Inr (ignored, s')
          \<and> check_output t [''ldd'', filename] s' = Inr out
          \<and> ret = filter (\<lambda>m. m \<notin> ignored) (arrow_targets (splitlines out))
          \<and> set ret \<inter> ignored = {}
          \<and> (libc6_cache s = None \<longrightarrow>
               (\<exists>dpkg_out. check_output t [''dpkg'', ''-L'', ''libc6''] s = Inr dpkg_out
                  \<and> ignored = libc6_lines dpkg_out))"
  proof (intro exI conjI)
    show "libc6_links t s = Inr (ignored, s')" by fact
    show "check_output t [''ldd'', filename] s' = Inr out" by fact
    show "ret = filter (\<lambda>m. m \<notin> ignored) (arrow_targets (splitlines out))" by fact
    show "set ret \<inter> ignored = {}" by fact
    show "libc6_cache s = None \<longrightarrow>
               (\<exists>dpkg_out. check_output t [''dpkg'', ''-L'', ''libc6''] s = Inr dpkg_out
                  \<and> ignored = libc6_lines dpkg_out)" by fact
  qed
next
  assume "re_match LDD_LINE (strip l) = None \<and> loader_or_vdso (strip l)"
  then show "ldd_lines ignored' (l # ls) acc = ldd_lines ignored' ls acc"
    by (simp add: Let_def)
qed

theorem linux_linked_excludes_base_system_witness:
  "\<exists>s'. linux_linked (printing unit_test_dpkg unit_test_ldd) ''/some/file.so'' (start Map.empty)
         = Inr (unit_test_ret, s')
      \<and> set unit_test_ret \<inter> libc6_lines unit_test_dpkg = {}
      \<and> re_match LDD_LINE (strip vdso_line) = None
      \<and> loader_or_vdso (strip vdso_line)
      \<and> ldd_lines {} [vdso_line] [] = ldd_lines {} [] []"
proof -
  define T where "T = printing unit_test_dpkg unit_test_ldd"
  define S where "S = (start Map.empty :: unit world)"
  have "map_sum id fst (linux_linked (printing unit_test_dpkg unit_test_ldd) ''/some/file.so''
          (start Map.empty)) = Inr unit_test_ret"
    by code_simp
  then have "\<exists>s'. linux_linked T ''/some/file.so'' S = Inr (unit_test_ret, s')"
    unfolding T_def S_def by (rule Inr_fstE)
  then obtain s' where run: "linux_linked T ''/some/file.so'' S = Inr (unit_test_ret, s')" ..
  have fresh: "libc6_cache S = None"
    by (simp add: S_def start_def)
  have dpkg: "check_output T [''dpkg'', ''-L'', ''libc6''] S = Inr unit_test_dpkg"
    by (simp add: check_output_def T_def printing_def)
  have vdso: "re_match LDD_LINE (strip vdso_line) = None \<and> loader_or_vdso (strip vdso_line)"
    by code_simp
  note inst = linux_linked_excludes_base_system
         [of T "''/some/file.so''" S unit_test_ret s' vdso_line "{}" "[]" "[]"]
  from inst have part1: "linux_linked T ''/some/file.so'' S = Inr (unit_test_ret, s') \<longrightarrow>
      (\<exists>ignored out.
          libc6_links T S = Inr (ignored, s')
          \<and> check_output T [''ldd'', ''/some/file.so''] s' = Inr out
          \<and> unit_test_ret = filter (\<lambda>m. m \<notin> ignored) (arrow_targets (splitlines out))
          \<and> set unit_test_ret \<inter> ignored = {}
          \<and> (libc6_cache S = None \<longrightarrow>
               (\<exists>dpkg_out. check_output T [''dpkg'', ''-L'', ''libc6''] S = Inr dpkg_out
                  \<and> ignored = libc6_lines dpkg_out)))" by (rule conjunct1)
  from part1 run have "\<exists>ignored out.
          libc6_links T S = Inr (ignored, s')
          \<and> check_output T [''ldd'', ''/some/file.so''] s' = Inr out
          \<and> unit_test_ret = filter (\<lambda>m. m \<notin> ignored) (arrow_targets (splitlines out))
          \<and> set unit_test_ret \<inter> ignored = {}
          \<and> (libc6_cache S = None \<longrightarrow>
               (\<exists>dpkg_out. check_output T [''dpkg'', ''-L'', ''libc6''] S = Inr dpkg_out
                  \<and> ignored = libc6_lines dpkg_out))"
    by (rule mp)
  then obtain ignored where "\<exists>out.
          libc6_links T S = Inr (ignored, s')
          \<and> check_output T [''ldd'', ''/some/file.so''] s' = Inr out
          \<and> unit_test_ret = filter (\<lambda>m. m \<notin> ignored) (arrow_targets (splitlines out))
          \<and> set unit_test_ret \<inter> ignored = {}
          \<and> (libc6_cache S = None \<longrightarrow>
               (\<exists>dpkg_out. check_output T [''dpkg'', ''-L'', ''libc6''] S = Inr dpkg_out
                  \<and> ignored = libc6_lines dpkg_out))" ..
  then obtain out where c:
         "libc6_links T S = Inr (ignored, s')
          \<and> check_output T [''ldd'', ''/some/file.so''] s' = Inr out
          \<and> unit_test_ret = filter (\<lambda>m. m \<notin> ignored) (arrow_targets (splitlines out))
          \<and> set unit_test_ret \<inter> ignored = {}
          \<and> (libc6_cache S = None \<longrightarrow>
               (\<exists>dpkg_out. check_output T [''dpkg'', ''-L'', ''libc6''] S = Inr dpkg_out
                  \<and> ignored = libc6_lines dpkg_out))" ..
  note disj = c [THEN conjunct2, THEN conjunct2, THEN conjunct2, THEN conjunct1]
  note ig = c [THEN conjunct2, THEN conjunct2, THEN conjunct2, THEN conjunct2]
  from ig fresh dpkg have "ignored = libc6_lines unit_test_dpkg"
    by simp
  with disj have d: "set unit_test_ret \<inter> libc6_lines unit_test_dpkg = {}"
    by simp
  from inst have part2: "re_match LDD_LINE (strip vdso_line) = None \<and> loader_or_vdso (strip vdso_line) \<longrightarrow>
        ldd_lines {} [vdso_line] [] = ldd_lines {} [] []" by (rule conjunct2)
  from part2 vdso have skip: "ldd_lines {} [vdso_line] [] = ldd_lines {} [] []"
    by (rule mp)
  from run d vdso skip show ?thesis
    unfolding T_def S_def by (intro exI conjI) (simp_all only:)
qed

text \<open>
  C5 as stated fails for a loader line in arrow form: the prefixes are tested only on
  lines that are not in arrow form, so the target of such a line is returned unless the
  exclusion set holds it, and \<open>/usr/lib64/ld-linux-x86-64.so.2\<close> is not a line of
  \<open>dpkg -L libc6\<close> that starts with \<open>/lib/\<close>.
\<close>

theorem linux_linked_excludes_base_system_counterexample:
  "loader_or_vdso (strip loader_arrow_line)
   \<and> map_sum id fst (linux_linked (printing x86_64_dpkg loader_arrow_ldd) ''/bin/app''
        (start Map.empty))
     = Inr [''/usr/lib64/ld-linux-x86-64.so.2'']"
  by code_simp

lemma Inl_mapE: "map_sum id f x = Inl e \<Longrightarrow> x = Inl e"
  by (cases x) auto

lemma Some_Inl_mapE: "map_option (map_sum id f) x = Some (Inl e) \<Longrightarrow> x = Some (Inl e)"
  by (cases x) (auto dest: Inl_mapE)

lemma Inr_mapE: "map_sum id f x = Inr a \<Longrightarrow> \<exists>b. x = Inr b"
  by (cases x) auto

lemma darwin_linked_state:
  "darwin_linked t filename s = Inr (ret, s') \<Longrightarrow> s' = s"
  by (auto simp: darwin_linked_def split: sum.splits list.splits if_splits)

lemma darwin_linked_loop:
  "darwin_linked t filename s = Inr (ret, s') \<Longrightarrow>
   \<exists>ls. otool_lines (fs s) filename ls [] = Inr ret"
  by (auto simp: darwin_linked_def split: sum.splits list.splits if_splits)





text \<open>
  C7. The list \<open>_darwin_linked\<close> returns for a file never contains the path of that
  file.
\<close>

theorem darwin_linked_drops_self:
  "darwin_linked t filename s = Inr (ret, s') \<Longrightarrow> filename \<notin> set ret"
proof -
  assume "darwin_linked t filename s = Inr (ret, s')"
  then obtain ls where "otool_lines (fs s) filename ls [] = Inr ret"
    using darwin_linked_loop by blast
  from otool_lines_result [OF this] show ?thesis
    by auto
qed

theorem darwin_linked_drops_self_witness:
  "\<exists>s'. darwin_linked otool_tools ''/ssl/lib/libssl.dylib'' (start self_linked)
          = Inr ([''/ssl/lib/libcrypto.dylib''], s')
       \<and> ''/ssl/lib/libssl.dylib'' \<notin> set [''/ssl/lib/libcrypto.dylib'']"
proof -
  have "map_sum id fst (darwin_linked otool_tools ''/ssl/lib/libssl.dylib'' (start self_linked))
          = Inr [''/ssl/lib/libcrypto.dylib'']"
    by code_simp
  then have "\<exists>s'. darwin_linked otool_tools ''/ssl/lib/libssl.dylib'' (start self_linked)
          = Inr ([''/ssl/lib/libcrypto.dylib''], s')"
    by (rule Inr_fstE)
  then obtain s' where run: "darwin_linked otool_tools ''/ssl/lib/libssl.dylib'' (start self_linked)
          = Inr ([''/ssl/lib/libcrypto.dylib''], s')" ..
  from darwin_linked_drops_self [OF run] run show ?thesis
    by (intro exI conjI)
qed

text \<open>
  C8, as amended. On Darwin every path that \<open>_darwin_linked\<close> returns is a regular file
  on disk, and a matching line whose path is not one is skipped without an exception. On
  Linux \<open>_linux_linked\<close> does not look at the disk: the loop returns every target of an
  arrow-form line outside the exclusion set.
\<close>

theorem inspectors_and_disk:
  "(darwin_linked t filename s = Inr (ret, s') \<longrightarrow> (\<forall>p \<in> set ret. isfile (fs s) p))
   \<and> (re_match OTOOL_L_LINE line = Some m \<and> m \<noteq> filename \<and> \<not> isfile f m \<longrightarrow>
        otool_lines f filename (line # ls) acc = otool_lines f filename ls acc)
   \<and> (ldd_lines ignored lines [] = Inr ret' \<longrightarrow>
        ret' = filter (\<lambda>m. m \<notin> ignored) (arrow_targets lines))"
proof (intro conjI impI)
  assume "darwin_linked t filename s = Inr (ret, s')"
  then obtain ls where "otool_lines (fs s) filename ls [] = Inr ret"
    using darwin_linked_loop by blast
  from otool_lines_result [OF this] show "\<forall>p \<in> set ret. isfile (fs s) p"
    by auto
next
  assume "re_match OTOOL_L_LINE line = Some m \<and> m \<noteq> filename \<and> \<not> isfile f m"
  then show "otool_lines f filename (line # ls) acc = otool_lines f filename ls acc"
    by simp
next
  assume "ldd_lines ignored lines [] = Inr ret'"
  from ldd_lines_result [OF this] show "ret' = filter (\<lambda>m. m \<notin> ignored) (arrow_targets lines)"
    by simp
qed

theorem inspectors_and_disk_witness:
  "(\<exists>s'. darwin_linked otool_tools ''/ssl/lib/libssl.dylib'' (start self_linked)
          = Inr ([''/ssl/lib/libcrypto.dylib''], s')
       \<and> (\<forall>p \<in> set [''/ssl/lib/libcrypto.dylib'']. isfile (fs (start self_linked)) p))
   \<and> re_match OTOOL_L_LINE system_line = Some ''/usr/lib/libSystem.B.dylib''
   \<and> \<not> isfile self_linked ''/usr/lib/libSystem.B.dylib''
   \<and> otool_lines self_linked ''/ssl/lib/libssl.dylib'' [system_line] []
        = otool_lines self_linked ''/ssl/lib/libssl.dylib'' [] []
   \<and> ldd_lines (libc6_lines unit_test_dpkg) (splitlines unit_test_ldd) [] = Inr unit_test_ret
   \<and> unit_test_ret = filter (\<lambda>m. m \<notin> libc6_lines unit_test_dpkg)
                        (arrow_targets (splitlines unit_test_ldd))"
proof -
  define F where "F = ''/ssl/lib/libssl.dylib''"
  define M where "M = ''/usr/lib/libSystem.B.dylib''"
  have "map_sum id fst (darwin_linked otool_tools ''/ssl/lib/libssl.dylib'' (start self_linked))
          = Inr [''/ssl/lib/libcrypto.dylib'']"
    by code_simp
  then have "\<exists>s'. darwin_linked otool_tools F (start self_linked)
          = Inr ([''/ssl/lib/libcrypto.dylib''], s')"
    unfolding F_def by (rule Inr_fstE)
  then obtain s' where run: "darwin_linked otool_tools F (start self_linked)
          = Inr ([''/ssl/lib/libcrypto.dylib''], s')" ..
  have m: "re_match OTOOL_L_LINE system_line = Some ''/usr/lib/libSystem.B.dylib''"
    by code_simp
  have ne: "''/usr/lib/libSystem.B.dylib'' \<noteq> ''/ssl/lib/libssl.dylib''"
    by simp
  have nf: "\<not> isfile self_linked ''/usr/lib/libSystem.B.dylib''"
    by (simp add: isfile_def self_linked_def)
  have l: "ldd_lines (libc6_lines unit_test_dpkg) (splitlines unit_test_ldd) [] = Inr unit_test_ret"
    by code_simp
  note inst = inspectors_and_disk
    [where t = otool_tools and filename = F and s = "start self_linked"
       and ret = "[''/ssl/lib/libcrypto.dylib'']" and s' = s' and line = system_line and m = M
       and f = self_linked and ls = "[]" and acc = "[]"
       and ignored = "libc6_lines unit_test_dpkg" and lines = "splitlines unit_test_ldd"
       and ret' = unit_test_ret]
  note c1 = inst [THEN conjunct1, THEN mp]
  note c2 = inst [THEN conjunct2, THEN conjunct1, rule_format]
  note c3 = inst [THEN conjunct2, THEN conjunct2, rule_format]
  have r1: "\<forall>p \<in> set [''/ssl/lib/libcrypto.dylib'']. isfile (fs (start self_linked)) p"
    using run by (rule c1)
  have r2: "otool_lines self_linked F [system_line] [] = otool_lines self_linked F [] []"
  proof (rule c2)
    from m ne nf show "re_match OTOOL_L_LINE system_line = Some M \<and> M \<noteq> F \<and> \<not> isfile self_linked M"
      unfolding M_def F_def by (intro conjI)
  qed
  have r3: "unit_test_ret = filter (\<lambda>m. m \<notin> libc6_lines unit_test_dpkg)
                        (arrow_targets (splitlines unit_test_ldd))"
    using l by (rule c3)
  from run r1 have "\<exists>s'. darwin_linked otool_tools F (start self_linked)
          = Inr ([''/ssl/lib/libcrypto.dylib''], s')
       \<and> (\<forall>p \<in> set [''/ssl/lib/libcrypto.dylib'']. isfile (fs (start self_linked)) p)"
    by (intro exI conjI)
  with m nf r2 l r3 show ?thesis
    unfolding F_def by (intro conjI)
qed

text \<open>
  C8 as stated fails on Linux: a reference that \<open>ldd\<close> cannot resolve is printed as
  \<open>not found\<close>, which is no recognized line, so the inspector raises.
\<close>

theorem inspectors_and_disk_counterexample:
  "linux_linked (printing [] not_found_ldd) ''/bin/app'' (start Map.empty)
     = Inl (AssertionError (''unexpected ldd line:'' @ [LF, LF] @ ''libfoo.so => not found''))"
proof -
  have "map_sum id (\<lambda>_. ()) (linux_linked (printing [] not_found_ldd) ''/bin/app'' (start Map.empty))
     = Inl (AssertionError (''unexpected ldd line:'' @ [LF, LF] @ ''libfoo.so => not found''))"
    by code_simp
  then show ?thesis by (rule Inl_mapE)
qed

section \<open>The relinkers\<close>

lemma check_call_trace:
  "check_call t cmd s = Inr s' \<Longrightarrow> trace s' = trace s @ [Call cmd]"
  by (auto simp: check_call_def split: sum.splits)

lemma change_links_trace:
  "change_links t filename libdir dir links s = Inr s' \<Longrightarrow>
   trace s' = trace s @
     map (\<lambda>link. Call [''install_name_tool'', ''-change'', link,
                        ''@loader_path/'' @ relpath t (join libdir (basename link)) dir, filename])
       links"
proof (induction links arbitrary: s)
  case Nil
  then show ?case by simp
next
  case (Cons link links)
  from Cons.prems obtain s1 where
    one: "check_call t [''install_name_tool'', ''-change'', link,
            ''@loader_path/'' @ relpath t (join libdir (basename link)) dir, filename] s = Inr s1" and
    rest: "change_links t filename libdir dir links s1 = Inr s'"
    by (auto simp: Let_def split: sum.splits)
  from check_call_trace [OF one] Cons.IH [OF rest] show ?case
    by simp
qed

text \<open>
  C9, as amended. \<open>_darwin_relink\<close> runs \<open>install_name_tool -id\<close> once when
  \<open>set_name\<close> is true, then \<open>install_name_tool -change\<close> once for each reference that
  \<open>_darwin_linked\<close> returns for the binary at that moment, in order, then \<open>codesign\<close>
  once. \<open>_linux_relink\<close> runs \<open>patchelf --set-rpath\<close> once, whatever the number of
  references and whatever \<open>set_name\<close>.
\<close>

theorem relinker_tool_runs:
  "(darwin_relink t filename libdir set_name s = Inr s' \<longrightarrow>
      (\<exists>s1 links.
          (if set_name
           then check_call t [''install_name_tool'', ''-id'', ''@loader_path/'' @ basename filename,
                              filename] s = Inr s1
           else s1 = s)
          \<and> darwin_linked t filename s1 = Inr (links, s1)
          \<and> trace s' = trace s
               @ (if set_name
                  then [Call [''install_name_tool'', ''-id'', ''@loader_path/'' @ basename filename,
                              filename]]
                  else [])
               @ map (\<lambda>link. Call [''install_name_tool'', ''-change'', link,
                        ''@loader_path/'' @ relpath t (join libdir (basename link)) (dirname filename),
                        filename]) links
               @ [Call [''codesign'', ''--force'', ''--sign'', ''-'', filename]]))
   \<and> (linux_relink t filename libdir set_name s = Inr s' \<longrightarrow>
        trace s' = trace s
          @ [Call [''patchelf'', ''--force-rpath'', ''--set-rpath'',
                   ''$ORIGIN/'' @ relpath t libdir (dirname filename), filename]])"
proof (intro conjI impI)
  assume run: "darwin_relink t filename libdir set_name s = Inr s'"
  let ?id = "[''install_name_tool'', ''-id'', ''@loader_path/'' @ basename filename, filename]"
  let ?sign = "[''codesign'', ''--force'', ''--sign'', ''-'', filename]"
  from run obtain s1 links s2 s3 where
    first: "(if set_name then check_call t ?id s else Inr s) = Inr s1" and
    insp: "darwin_linked t filename s1 = Inr (links, s2)" and
    loop: "change_links t filename libdir (dirname filename) links s2 = Inr s3" and
    sign: "check_call t ?sign s3 = Inr s'"
    by (auto simp: darwin_relink_def split_path_def split: sum.splits)
  from darwin_linked_state [OF insp] have s2: "s2 = s1" .
  from first have tr1: "trace s1 = trace s @ (if set_name then [Call ?id] else [])"
    by (auto dest: check_call_trace split: if_splits)
  from first have st1: "if set_name then check_call t ?id s = Inr s1 else s1 = s"
    by (auto split: if_splits)
  from change_links_trace [OF loop] check_call_trace [OF sign] tr1 s2
  have "trace s' = trace s @ (if set_name then [Call ?id] else [])
               @ map (\<lambda>link. Call [''install_name_tool'', ''-change'', link,
                        ''@loader_path/'' @ relpath t (join libdir (basename link)) (dirname filename),
                        filename]) links
               @ [Call ?sign]"
    by simp
  with st1 insp s2 show "\<exists>s1 links.
          (if set_name then check_call t ?id s = Inr s1 else s1 = s)
          \<and> darwin_linked t filename s1 = Inr (links, s1)
          \<and> trace s' = trace s @ (if set_name then [Call ?id] else [])
               @ map (\<lambda>link. Call [''install_name_tool'', ''-change'', link,
                        ''@loader_path/'' @ relpath t (join libdir (basename link)) (dirname filename),
                        filename]) links
               @ [Call ?sign]"
    by blast
next
  assume "linux_relink t filename libdir set_name s = Inr s'"
  then show "trace s' = trace s
          @ [Call [''patchelf'', ''--force-rpath'', ''--set-rpath'',
                   ''$ORIGIN/'' @ relpath t libdir (dirname filename), filename]]"
    by (simp add: linux_relink_def Let_def check_call_trace)
qed

theorem relinker_tool_runs_witness:
  "(\<exists>s'. darwin_relink otool_tools ''/ssl/lib/libssl.dylib'' ''/ssl/lib'' True (start self_linked)
            = Inr s'
       \<and> (\<exists>s1 links.
          check_call otool_tools
            [''install_name_tool'', ''-id'', ''@loader_path/'' @ basename ''/ssl/lib/libssl.dylib'',
             ''/ssl/lib/libssl.dylib''] (start self_linked) = Inr s1
          \<and> darwin_linked otool_tools ''/ssl/lib/libssl.dylib'' s1 = Inr (links, s1)
          \<and> length (calls (trace s')) = 1 + length links + 1))
   \<and> (\<exists>s'. linux_relink ldd_tools ''/p/bin/app'' ''/p/lib'' False (start diamond) = Inr s'
       \<and> length (calls (trace s')) = 1)"
proof -
  define F where "F = ''/ssl/lib/libssl.dylib''"
  define G where "G = ''/p/bin/app''"
  define I where "I = [''install_name_tool'', ''-id'', ''@loader_path/'' @ basename F, F]"
  have "map_sum id (\<lambda>_. ())
          (darwin_relink otool_tools ''/ssl/lib/libssl.dylib'' ''/ssl/lib'' True (start self_linked))
        = Inr ()"
    by code_simp
  then have "\<exists>s'. darwin_relink otool_tools F ''/ssl/lib'' True (start self_linked) = Inr s'"
    unfolding F_def by (rule Inr_mapE)
  then obtain s' where d: "darwin_relink otool_tools F ''/ssl/lib'' True (start self_linked) = Inr s'" ..
  have "map_sum id (\<lambda>_. ())
          (linux_relink ldd_tools ''/p/bin/app'' ''/p/lib'' False (start diamond)) = Inr ()"
    by code_simp
  then have "\<exists>s'. linux_relink ldd_tools G ''/p/lib'' False (start diamond) = Inr s'"
    unfolding G_def by (rule Inr_mapE)
  then obtain s'' where l: "linux_relink ldd_tools G ''/p/lib'' False (start diamond) = Inr s''" ..
  note c1 = relinker_tool_runs [THEN conjunct1, rule_format, OF d]
  note c2 = relinker_tool_runs [THEN conjunct2, rule_format, OF l]
  from c1 obtain s1 links where
    s1: "check_call otool_tools I (start self_linked) = Inr s1" and
    lk: "darwin_linked otool_tools F s1 = Inr (links, s1)" and
    tr: "trace s' = trace (start self_linked) @ [Call I]
               @ map (\<lambda>link. Call [''install_name_tool'', ''-change'', link,
                        ''@loader_path/'' @ relpath otool_tools (join ''/ssl/lib'' (basename link)) (dirname F),
                        F]) links
               @ [Call [''codesign'', ''--force'', ''--sign'', ''-'', F]]"
    unfolding I_def by (elim exE conjE) simp
  have e: "trace (start self_linked :: string list world) = []"
    by (simp add: start_def)
  have n: "length (calls (trace s')) = 1 + length links + 1"
    unfolding tr e by (simp add: calls_def comp_def)
  from c2 have n': "length (calls (trace s'')) = 1"
    by (simp add: calls_def start_def)
  from d s1 lk n have r1: "\<exists>s'. darwin_relink otool_tools F ''/ssl/lib'' True (start self_linked) = Inr s'
       \<and> (\<exists>s1 links. check_call otool_tools I (start self_linked) = Inr s1
          \<and> darwin_linked otool_tools F s1 = Inr (links, s1)
          \<and> length (calls (trace s')) = 1 + length links + 1)"
    by (intro exI conjI)
  from l n' have r2: "\<exists>s'. linux_relink ldd_tools G ''/p/lib'' False (start diamond) = Inr s'
       \<and> length (calls (trace s')) = 1"
    by (intro exI conjI)
  from r1 r2 show ?thesis
    unfolding F_def G_def I_def by (intro conjI)
qed

text \<open>
  C9 as stated fails on Linux: the binary \<open>app\<close> has two references and its relinking
  runs the rewrite tool once.
\<close>

theorem relinker_tool_runs_counterexample:
  "map_sum id (\<lambda>r. length (fst r)) (linux_linked ldd_tools ''/p/bin/app'' (start diamond)) = Inr 2
   \<and> map_sum id (\<lambda>s. calls (trace s))
        (linux_relink ldd_tools ''/p/bin/app'' ''/p/lib'' False (start diamond))
      = Inr [[''patchelf'', ''--force-rpath'', ''--set-rpath'', ''$ORIGIN/../lib'', ''/p/bin/app'']]"
  by code_simp

end
